theory Spec2Isabelle
  imports Main "HOL-Library.Char_ord" "HOL-Library.List_Lexorder"
begin

section \<open>Errors (internal/errors/errors.go)\<close>

text \<open>
  The sentinel errors, the two structured errors and the wrapping done by
  \<^verbatim>\<open>fmt.Errorf("...: %w", err)\<close>. \<open>ErrDriver\<close> stands for an error
  value that comes from database/sql or the driver and is none of the sentinels
  (connection loss, deadline, a rejected statement).
\<close>

datatype error =
    ErrAccountNotFound
  | ErrAccountAlreadyExists
  | ErrInsufficentBalance
  | ErrInvalidAmount
  | ErrInvalidAccountID
  | ErrSameAccount
  | ErrNegativeBalance
  | ErrDriver
  | ValidationError string string
  | TransactionError string error
  | Errorf string error

text \<open>\<^verbatim>\<open>errors.Is\<close> follows \<^verbatim>\<open>Unwrap\<close>: through \<open>Errorf\<close> (the \<^verbatim>\<open>%w\<close> verb)
  and through \<open>TransactionError\<close>; a \<open>ValidationError\<close> wraps nothing.\<close>

fun IsNotFound :: "error \<Rightarrow> bool" where
  "IsNotFound ErrAccountNotFound = True"
| "IsNotFound (TransactionError operation cause) = IsNotFound cause"
| "IsNotFound (Errorf msg cause) = IsNotFound cause"
| "IsNotFound _ = False"

fun IsInsufficientBalance :: "error \<Rightarrow> bool" where
  "IsInsufficientBalance ErrInsufficentBalance = True"
| "IsInsufficientBalance (TransactionError operation cause) = IsInsufficientBalance cause"
| "IsInsufficientBalance (Errorf msg cause) = IsInsufficientBalance cause"
| "IsInsufficientBalance _ = False"

fun IsValidationError :: "error \<Rightarrow> bool" where
  "IsValidationError (ValidationError field msg) = True"
| "IsValidationError (TransactionError operation cause) = IsValidationError cause"
| "IsValidationError (Errorf msg cause) = IsValidationError cause"
| "IsValidationError _ = False"

fun IsAlreadyExists :: "error \<Rightarrow> bool" where
  "IsAlreadyExists ErrAccountAlreadyExists = True"
| "IsAlreadyExists (TransactionError operation cause) = IsAlreadyExists cause"
| "IsAlreadyExists (Errorf msg cause) = IsAlreadyExists cause"
| "IsAlreadyExists _ = False"

section \<open>Data model (internal/models/models.go)\<close>

text \<open>
  Balances and amounts are \<^verbatim>\<open>float64\<close> in the Go structs and \<^verbatim>\<open>DECIMAL(18,2)\<close> in
  the schema. The model leaves the number type \<open>'a\<close> open: the definitions use only its
  comparison, its zero, its addition and its subtraction, and every theorem names the
  laws of the number type that it relies on in the sort of \<open>'a\<close>. The timestamp fields
  and the identifiers of audit rows, which the store generates, are left out.
\<close>

record 'a Account =
  ID :: string
  Balance :: 'a

record 'a Transaction =
  tx_ID :: string
  tx_SourceAccountID :: string
  tx_DestinationAccountID :: string
  tx_Amount :: 'a

datatype 'a json_value =
    AccountBalanceSnapshot string 'a
  | TransactionSnapshot string string string 'a

record 'a AuditLog =
  EntityType :: string
  EntityID :: string
  Action :: string
  OldValue :: "'a json_value option"
  NewValue :: "'a json_value"

definition AuditActionCreate :: string where
  "AuditActionCreate = ''CREATE''"

definition EntityTypeAccount :: string where
  "EntityTypeAccount = ''ACCOUNT''"

record 'a CreateAccountRequest =
  req_ID :: string
  InitialBalance :: 'a

record 'a CreateTransactionRequest =
  SourceAccountID :: string
  DestinationAccountID :: string
  Amount :: 'a

section \<open>The store and the calls made on it\<close>

text \<open>
  The three tables of db/migrations/001\_init.sql: accounts by primary key, and the two
  append-only tables in insertion order.
\<close>

record 'a store =
  accounts :: "string \<rightharpoonup> 'a"
  transactions :: "'a Transaction list"
  audit_logs :: "'a AuditLog list"

text \<open>Every call the services make on database/sql, as the repositories make them.\<close>

datatype call =
    BeginTx
  | SelectForUpdate string
  | UpdateBalance string
  | InsertTransaction
  | InsertAudit string
  | Commit
  | Rollback
  | InsertAccount string
  | SelectAccount string
  | InsertAuditWithDB string

text \<open>
  The environment decides what the code cannot: which calls come back with a driver
  error (\<open>fails\<close>), and the identifier \<^verbatim>\<open>uuid.New()\<close> returns. A driver error is
  any error other than the two the repositories tell apart (no row, and the unique
  violation 23505): a lost connection, an expired deadline, or a statement the store
  refuses for a reason of its own, such as a column width or a CHECK constraint of the
  schema. The services treat all of these alike.
\<close>

record env =
  fails :: "call \<Rightarrow> bool"
  new_uuid :: string

text \<open>
  \<open>db\<close> is the committed state, the one other units of work see; \<open>work\<close> is the state
  inside the open unit of work (\<^verbatim>\<open>*sql.Tx\<close>); \<open>locks\<close> lists the account rows locked by
  \<^verbatim>\<open>SELECT ... FOR UPDATE\<close>, in the order the locks were taken; \<open>issued\<close> lists the
  calls made on the store, oldest first.
\<close>

record 'a sys =
  db :: "'a store"
  work :: "'a store"
  locks :: "string list"
  issued :: "call list"

definition issue :: "call \<Rightarrow> 'a sys \<Rightarrow> 'a sys" where
  "issue c s = s\<lparr>issued := issued s @ [c]\<rparr>"

definition db_BeginTx :: "env \<Rightarrow> 'a sys \<Rightarrow> (error + unit) \<times> 'a sys" where
  "db_BeginTx e s =
     (let s1 = issue BeginTx s in
      if fails e BeginTx then (Inl ErrDriver, s1)
      else (Inr (), s1\<lparr>work := db s1\<rparr>))"

definition tx_Commit :: "env \<Rightarrow> 'a sys \<Rightarrow> (error + unit) \<times> 'a sys" where
  "tx_Commit e s =
     (let s1 = issue Commit s in
      if fails e Commit then (Inl ErrDriver, s1)
      else (Inr (), s1\<lparr>db := work s1\<rparr>))"

definition tx_Rollback :: "'a sys \<Rightarrow> 'a sys" where
  "tx_Rollback s = (let s1 = issue Rollback s in s1\<lparr>work := db s1\<rparr>)"

section \<open>Repositories (internal/repository)\<close>

definition CreateAccount_repo :: "env \<Rightarrow> 'a Account \<Rightarrow> 'a sys \<Rightarrow> (error + unit) \<times> 'a sys" where
  "CreateAccount_repo e account s =
     (let s1 = issue (InsertAccount (ID account)) s in
      if fails e (InsertAccount (ID account))
      then (Inl (Errorf ''failed to create account'' ErrDriver), s1)
      else (case accounts (db s1) (ID account) of
              Some b \<Rightarrow> (Inl ErrAccountAlreadyExists, s1)
            | None \<Rightarrow>
                (Inr (), s1\<lparr>db := (db s1)\<lparr>accounts := (accounts (db s1))(ID account \<mapsto> Balance account)\<rparr>\<rparr>)))"

definition GetAccountByID :: "env \<Rightarrow> string \<Rightarrow> 'a sys \<Rightarrow> (error + 'a Account) \<times> 'a sys" where
  "GetAccountByID e i s =
     (let s1 = issue (SelectAccount i) s in
      if fails e (SelectAccount i)
      then (Inl (Errorf ''failed to get account by ID'' ErrDriver), s1)
      else (case accounts (db s1) i of
              None \<Rightarrow> (Inl ErrAccountNotFound, s1)
            | Some b \<Rightarrow> (Inr \<lparr>ID = i, Balance = b\<rparr>, s1)))"

definition GetAccountByIDForUpdate :: "env \<Rightarrow> string \<Rightarrow> 'a sys \<Rightarrow> (error + 'a Account) \<times> 'a sys" where
  "GetAccountByIDForUpdate e i s =
     (let s1 = issue (SelectForUpdate i) s in
      if fails e (SelectForUpdate i)
      then (Inl (Errorf ''failed to get account by ID for update'' ErrDriver), s1)
      else (case accounts (work s1) i of
              None \<Rightarrow> (Inl ErrAccountNotFound, s1)
            | Some b \<Rightarrow> (Inr \<lparr>ID = i, Balance = b\<rparr>, s1\<lparr>locks := locks s1 @ [i]\<rparr>)))"

definition UpdateAccountBalance :: "env \<Rightarrow> string \<Rightarrow> 'a \<Rightarrow> 'a sys \<Rightarrow> (error + unit) \<times> 'a sys" where
  "UpdateAccountBalance e i newBalance s =
     (let s1 = issue (UpdateBalance i) s in
      if fails e (UpdateBalance i)
      then (Inl (Errorf ''failed to update account balance'' ErrDriver), s1)
      else (case accounts (work s1) i of
              None \<Rightarrow> (Inl ErrAccountNotFound, s1)
            | Some b \<Rightarrow>
                (Inr (), s1\<lparr>work := (work s1)\<lparr>accounts := (accounts (work s1))(i \<mapsto> newBalance)\<rparr>\<rparr>)))"

text \<open>\<^verbatim>\<open>TransactionRepository.Create\<close> fills in the identifier when it is empty, then
  inserts; the caller's struct keeps the identifier.\<close>

definition Create_transaction :: "env \<Rightarrow> 'a Transaction \<Rightarrow> 'a sys \<Rightarrow> (error + 'a Transaction) \<times> 'a sys" where
  "Create_transaction e t s =
     (let t1 = (if tx_ID t = [] then t\<lparr>tx_ID := new_uuid e\<rparr> else t);
          s1 = issue InsertTransaction s in
      if fails e InsertTransaction
      then (Inl (Errorf ''failed to create transaction'' ErrDriver), s1)
      else (Inr t1, s1\<lparr>work := (work s1)\<lparr>transactions := transactions (work s1) @ [t1]\<rparr>\<rparr>))"

definition Create_audit :: "env \<Rightarrow> 'a AuditLog \<Rightarrow> 'a sys \<Rightarrow> (error + unit) \<times> 'a sys" where
  "Create_audit e l s =
     (let s1 = issue (InsertAudit (Action l)) s in
      if fails e (InsertAudit (Action l))
      then (Inl (Errorf ''failed to create audit log'' ErrDriver), s1)
      else (Inr (), s1\<lparr>work := (work s1)\<lparr>audit_logs := audit_logs (work s1) @ [l]\<rparr>\<rparr>))"

definition CreateWithDB :: "env \<Rightarrow> 'a AuditLog \<Rightarrow> 'a sys \<Rightarrow> (error + unit) \<times> 'a sys" where
  "CreateWithDB e l s =
     (let s1 = issue (InsertAuditWithDB (Action l)) s in
      if fails e (InsertAuditWithDB (Action l))
      then (Inl (Errorf ''failed to create audit log'' ErrDriver), s1)
      else (Inr (), s1\<lparr>db := (db s1)\<lparr>audit_logs := audit_logs (db s1) @ [l]\<rparr>\<rparr>))"

section \<open>Account service (internal/service/account\_service.go)\<close>

definition validateCreateRequest :: "('a::{ord,zero}) CreateAccountRequest \<Rightarrow> error option" where
  "validateCreateRequest req =
     (if req_ID req = [] then Some ErrInvalidAccountID
      else if InitialBalance req < 0 then Some ErrNegativeBalance
      else None)"

text \<open>The snapshot is marshalled from a finite number, which does not fail.\<close>

definition createAccoutAuditLog :: "env \<Rightarrow> 'a Account \<Rightarrow> 'a sys \<Rightarrow> (error + unit) \<times> 'a sys" where
  "createAccoutAuditLog e account s =
     CreateWithDB e
       \<lparr>EntityType = EntityTypeAccount, EntityID = ID account, Action = AuditActionCreate,
        OldValue = None, NewValue = AccountBalanceSnapshot (ID account) (Balance account)\<rparr> s"

definition CreateAccount :: "env \<Rightarrow> ('a::{ord,zero}) CreateAccountRequest \<Rightarrow> 'a sys \<Rightarrow> (error + 'a Account) \<times> 'a sys" where
  "CreateAccount e req s =
     (case validateCreateRequest req of
        Some err \<Rightarrow> (Inl err, s)
      | None \<Rightarrow>
          (let account = \<lparr>ID = req_ID req, Balance = InitialBalance req\<rparr> in
           case CreateAccount_repo e account s of
             (Inl err, s1) \<Rightarrow> (Inl err, s1)
           | (Inr u, s1) \<Rightarrow> (Inr account, snd (createAccoutAuditLog e account s1))))"

definition GetAccount :: "env \<Rightarrow> string \<Rightarrow> 'a sys \<Rightarrow> (error + 'a Account) \<times> 'a sys" where
  "GetAccount e i s =
     (if i = [] then (Inl ErrInvalidAccountID, s)
      else (case GetAccountByID e i s of
              (Inl err, s1) \<Rightarrow> (Inl err, s1)
            | (Inr account, s1) \<Rightarrow> (Inr account, s1)))"

section \<open>Transaction service\<close>

definition validateTransferRequest :: "('a::{ord,zero}) CreateTransactionRequest \<Rightarrow> error option" where
  "validateTransferRequest req =
     (if SourceAccountID req = [] then Some (ValidationError ''source_account_id'' ''must be non-empty'')
      else if DestinationAccountID req = [] then Some (ValidationError ''destination_account_id'' ''must be non-empty'')
      else if SourceAccountID req = DestinationAccountID req then Some ErrSameAccount
      else if Amount req \<le> 0 then Some ErrInvalidAmount
      else None)"

definition createTransferAuditLog ::
  "env \<Rightarrow> 'a Transaction \<Rightarrow> 'a \<Rightarrow> 'a \<Rightarrow> 'a \<Rightarrow> 'a \<Rightarrow> 'a sys \<Rightarrow> (error + unit) \<times> 'a sys" where
  "createTransferAuditLog e t oldSourceBalance newSourceBalance oldDestinationBalance newDestinationBalance s =
     (case Create_audit e
             \<lparr>EntityType = ''account'', EntityID = tx_SourceAccountID t, Action = ''debit'',
              OldValue = Some (AccountBalanceSnapshot (tx_SourceAccountID t) oldSourceBalance),
              NewValue = AccountBalanceSnapshot (tx_SourceAccountID t) newSourceBalance\<rparr> s of
        (Inl err, s1) \<Rightarrow> (Inl (Errorf ''failed to create source account audit log'' err), s1)
      | (Inr u1, s1) \<Rightarrow>
     (case Create_audit e
             \<lparr>EntityType = ''account'', EntityID = tx_DestinationAccountID t, Action = ''credit'',
              OldValue = Some (AccountBalanceSnapshot (tx_DestinationAccountID t) oldDestinationBalance),
              NewValue = AccountBalanceSnapshot (tx_DestinationAccountID t) newDestinationBalance\<rparr> s1 of
        (Inl err, s2) \<Rightarrow> (Inl (Errorf ''failed to create destination account audit log'' err), s2)
      | (Inr u2, s2) \<Rightarrow>
     (case Create_audit e
             \<lparr>EntityType = ''transaction'', EntityID = tx_ID t, Action = ''transfer'',
              OldValue = None,
              NewValue = TransactionSnapshot (tx_ID t) (tx_SourceAccountID t) (tx_DestinationAccountID t) (tx_Amount t)\<rparr> s2 of
        (Inl err, s3) \<Rightarrow> (Inl (Errorf ''failed to create transaction audit log'' err), s3)
      | (Inr u3, s3) \<Rightarrow> (Inr (), s3))))"

text \<open>
  The part of \<^verbatim>\<open>Transfer\<close> that runs once both rows are read: the balance check, the two
  updates, the transaction record, the audit entries (whose error is logged and dropped)
  and the commit. Every error return leaves through the deferred \<^verbatim>\<open>tx.Rollback()\<close>.
\<close>

definition Transfer_apply ::
  "env \<Rightarrow> ('a::{ord,plus,minus}) CreateTransactionRequest \<Rightarrow> 'a Account \<Rightarrow> 'a Account \<Rightarrow> 'a sys
     \<Rightarrow> (error + 'a Transaction) \<times> 'a sys" where
  "Transfer_apply e req sourceAccount destinationAccount s =
     (if Balance sourceAccount < Amount req then (Inl ErrInsufficentBalance, tx_Rollback s)
      else
       (let oldSourceBalance = Balance sourceAccount;
            oldDestinationBalance = Balance destinationAccount;
            newSourceBalance = Balance sourceAccount - Amount req;
            newDestinationBalance = Balance destinationAccount + Amount req in
        case UpdateAccountBalance e (SourceAccountID req) newSourceBalance s of
          (Inl err, s1) \<Rightarrow> (Inl (TransactionError ''update source account balance'' err), tx_Rollback s1)
        | (Inr u1, s1) \<Rightarrow>
       (case UpdateAccountBalance e (DestinationAccountID req) newDestinationBalance s1 of
          (Inl err, s2) \<Rightarrow> (Inl (TransactionError ''update destination account balance'' err), tx_Rollback s2)
        | (Inr u2, s2) \<Rightarrow>
       (case Create_transaction e
               \<lparr>tx_ID = [], tx_SourceAccountID = SourceAccountID req,
                tx_DestinationAccountID = DestinationAccountID req, tx_Amount = Amount req\<rparr> s2 of
          (Inl err, s3) \<Rightarrow> (Inl (TransactionError ''create transaction record'' err), tx_Rollback s3)
        | (Inr t, s3) \<Rightarrow>
       (let s4 = snd (createTransferAuditLog e t oldSourceBalance newSourceBalance
                        oldDestinationBalance newDestinationBalance s3) in
        case tx_Commit e s4 of
          (Inl err, s5) \<Rightarrow> (Inl (TransactionError ''commit'' err), tx_Rollback s5)
        | (Inr u5, s5) \<Rightarrow> (Inr t, s5))))))"

definition Transfer ::
  "env \<Rightarrow> ('a::{ord,zero,plus,minus}) CreateTransactionRequest \<Rightarrow> 'a sys \<Rightarrow> (error + 'a Transaction) \<times> 'a sys" where
  "Transfer e req s =
     (case validateTransferRequest req of
        Some err \<Rightarrow> (Inl err, s)
      | None \<Rightarrow>
     (case db_BeginTx e s of
        (Inl err, s0) \<Rightarrow> (Inl (TransactionError ''begin'' err), s0)
      | (Inr u0, s0) \<Rightarrow>
     (case GetAccountByIDForUpdate e (SourceAccountID req) s0 of
        (Inl err, s1) \<Rightarrow>
          (if IsNotFound err then (Inl (Errorf ''source account'' err), tx_Rollback s1)
           else (Inl (TransactionError ''get source account'' err), tx_Rollback s1))
      | (Inr sourceAccount, s1) \<Rightarrow>
     (case GetAccountByIDForUpdate e (DestinationAccountID req) s1 of
        (Inl err, s2) \<Rightarrow>
          (if IsNotFound err then (Inl (Errorf ''destination account'' err), tx_Rollback s2)
           else (Inl (TransactionError ''get destination account'' err), tx_Rollback s2))
      | (Inr destinationAccount, s2) \<Rightarrow>
          Transfer_apply e req sourceAccount destinationAccount s2))))"

text \<open>Once the request is valid, the unit of work opens and both rows are read, the
  rest of the transfer is \<open>Transfer_apply\<close> on the two accounts read.\<close>

definition after_reads :: "env \<Rightarrow> 'a CreateTransactionRequest \<Rightarrow> 'a sys \<Rightarrow> 'a sys" where
  "after_reads e req s =
     snd (GetAccountByIDForUpdate e (DestinationAccountID req)
            (snd (GetAccountByIDForUpdate e (SourceAccountID req) (snd (db_BeginTx e s)))))"

section \<open>Concrete environments, stores and requests\<close>

text \<open>An environment in which no call fails, and one in which every audit insert fails
  and nothing else does.\<close>

definition env_ok :: env where
  "env_ok = \<lparr>fails = (\<lambda>c. False), new_uuid = ''0b9e''\<rparr>"

definition env_audit_down :: env where
  "env_audit_down =
     \<lparr>fails = (\<lambda>c. case c of InsertAudit a \<Rightarrow> True | InsertAuditWithDB a \<Rightarrow> True | _ \<Rightarrow> False),
      new_uuid = ''0b9e''\<rparr>"

definition env_commit_down :: env where
  "env_commit_down = \<lparr>fails = (\<lambda>c. c = Commit), new_uuid = ''0b9e''\<rparr>"

definition empty_store :: "int store" where
  "empty_store = \<lparr>accounts = Map.empty, transactions = [], audit_logs = []\<rparr>"

definition sys_empty :: "int sys" where
  "sys_empty = \<lparr>db = empty_store, work = empty_store, locks = [], issued = []\<rparr>"

text \<open>The store of the spec's scenarios: acc001 holds 1000 and acc002 holds 500.\<close>

definition sys_two :: "int sys" where
  "sys_two =
     \<lparr>db = \<lparr>accounts = [''acc001'' \<mapsto> 1000, ''acc002'' \<mapsto> 500], transactions = [], audit_logs = []\<rparr>,
      work = empty_store, locks = [], issued = []\<rparr>"

definition req_250 :: "int CreateTransactionRequest" where
  "req_250 = \<lparr>SourceAccountID = ''acc001'', DestinationAccountID = ''acc002'', Amount = 250\<rparr>"

definition req_all :: "int CreateTransactionRequest" where
  "req_all = \<lparr>SourceAccountID = ''acc001'', DestinationAccountID = ''acc002'', Amount = 1000\<rparr>"

definition req_10000 :: "int CreateTransactionRequest" where
  "req_10000 = \<lparr>SourceAccountID = ''acc001'', DestinationAccountID = ''acc002'', Amount = 10000\<rparr>"

definition req_back :: "int CreateTransactionRequest" where
  "req_back = \<lparr>SourceAccountID = ''acc002'', DestinationAccountID = ''acc001'', Amount = 1\<rparr>"

definition req_same :: "int CreateTransactionRequest" where
  "req_same = \<lparr>SourceAccountID = ''acc001'', DestinationAccountID = ''acc001'', Amount = 0\<rparr>"

definition req_blank :: "int CreateTransactionRequest" where
  "req_blank = \<lparr>SourceAccountID = [], DestinationAccountID = [], Amount = 100\<rparr>"

definition tx_250 :: "int Transaction" where
  "tx_250 = \<lparr>tx_ID = ''0b9e'', tx_SourceAccountID = ''acc001'',
             tx_DestinationAccountID = ''acc002'', tx_Amount = 250\<rparr>"

definition create_x_100 :: "int CreateAccountRequest" where
  "create_x_100 = \<lparr>req_ID = ''X'', InitialBalance = 100\<rparr>"

definition create_x_7 :: "int CreateAccountRequest" where
  "create_x_7 = \<lparr>req_ID = ''X'', InitialBalance = 7\<rparr>"

section \<open>What each call returns and what it leaves behind\<close>

lemma issue_proj [simp]:
  "db (issue c s) = db s" "work (issue c s) = work s" "locks (issue c s) = locks s"
  by (simp_all add: issue_def)

lemma Rollback_proj [simp]:
  "db (tx_Rollback s) = db s" "locks (tx_Rollback s) = locks s"
  by (simp_all add: tx_Rollback_def Let_def)

lemma Begin_proj:
  "fst (db_BeginTx e s) = (if fails e BeginTx then Inl ErrDriver else Inr ())"
  "db (snd (db_BeginTx e s)) = db s"
  "work (snd (db_BeginTx e s)) = (if fails e BeginTx then work s else db s)"
  "locks (snd (db_BeginTx e s)) = locks s"
  by (simp_all add: db_BeginTx_def Let_def)

lemma Commit_proj:
  "fst (tx_Commit e s) = (if fails e Commit then Inl ErrDriver else Inr ())"
  "db (snd (tx_Commit e s)) = (if fails e Commit then db s else work s)"
  "locks (snd (tx_Commit e s)) = locks s"
  by (simp_all add: tx_Commit_def Let_def)

lemma GetForUpdate_proj:
  "fst (GetAccountByIDForUpdate e i s) =
     (if fails e (SelectForUpdate i)
      then Inl (Errorf ''failed to get account by ID for update'' ErrDriver)
      else case accounts (work s) i of
             None \<Rightarrow> Inl ErrAccountNotFound
           | Some b \<Rightarrow> Inr \<lparr>ID = i, Balance = b\<rparr>)"
  "db (snd (GetAccountByIDForUpdate e i s)) = db s"
  "work (snd (GetAccountByIDForUpdate e i s)) = work s"
  "locks (snd (GetAccountByIDForUpdate e i s)) =
     (if \<not> fails e (SelectForUpdate i) \<and> accounts (work s) i \<noteq> None
      then locks s @ [i] else locks s)"
  by (auto simp: GetAccountByIDForUpdate_def Let_def split: option.splits)

lemma Update_proj:
  "fst (UpdateAccountBalance e i b s) =
     (if fails e (UpdateBalance i)
      then Inl (Errorf ''failed to update account balance'' ErrDriver)
      else case accounts (work s) i of
             None \<Rightarrow> Inl ErrAccountNotFound
           | Some b0 \<Rightarrow> Inr ())"
  "db (snd (UpdateAccountBalance e i b s)) = db s"
  "locks (snd (UpdateAccountBalance e i b s)) = locks s"
  "work (snd (UpdateAccountBalance e i b s)) =
     (if \<not> fails e (UpdateBalance i) \<and> accounts (work s) i \<noteq> None
      then (work s)\<lparr>accounts := (accounts (work s))(i \<mapsto> b)\<rparr> else work s)"
  by (auto simp: UpdateAccountBalance_def Let_def split: option.splits)

lemma Create_transaction_proj:
  "fst (Create_transaction e t s) =
     (if fails e InsertTransaction
      then Inl (Errorf ''failed to create transaction'' ErrDriver)
      else Inr (if tx_ID t = [] then t\<lparr>tx_ID := new_uuid e\<rparr> else t))"
  "db (snd (Create_transaction e t s)) = db s"
  "locks (snd (Create_transaction e t s)) = locks s"
  "work (snd (Create_transaction e t s)) =
     (if fails e InsertTransaction then work s
      else (work s)\<lparr>transactions :=
              transactions (work s) @ [if tx_ID t = [] then t\<lparr>tx_ID := new_uuid e\<rparr> else t]\<rparr>)"
  by (simp_all add: Create_transaction_def Let_def)

lemma Create_audit_proj:
  "db (snd (Create_audit e l s)) = db s"
  "locks (snd (Create_audit e l s)) = locks s"
  "accounts (work (snd (Create_audit e l s))) = accounts (work s)"
  "transactions (work (snd (Create_audit e l s))) = transactions (work s)"
  by (simp_all add: Create_audit_def Let_def)

lemma createTransferAuditLog_proj:
  "db (snd (createTransferAuditLog e t a b c d s)) = db s"
  "locks (snd (createTransferAuditLog e t a b c d s)) = locks s"
  "accounts (work (snd (createTransferAuditLog e t a b c d s))) = accounts (work s)"
  "transactions (work (snd (createTransferAuditLog e t a b c d s))) = transactions (work s)"
  by (simp_all add: createTransferAuditLog_def case_prod_beta Create_audit_proj split: sum.splits)

lemmas tx_proj = Begin_proj Commit_proj GetForUpdate_proj Update_proj Create_transaction_proj
  createTransferAuditLog_proj

section \<open>The transfer, step by step\<close>

lemma Transfer_invalid:
  "validateTransferRequest req = Some err \<Longrightarrow> Transfer e req s = (Inl err, s)"
  by (simp add: Transfer_def)

lemma Transfer_apply_error_db:
  "fst (Transfer_apply e req sa da s) = Inl err \<Longrightarrow>
   db (snd (Transfer_apply e req sa da s)) = db s"
  by (auto simp add: Transfer_apply_def Let_def case_prod_beta tx_proj
        split: sum.splits if_splits option.splits)

lemma Transfer_error_db:
  "fst (Transfer e req s) = Inl err \<Longrightarrow> db (snd (Transfer e req s)) = db s"
  by (auto simp add: Transfer_def case_prod_beta tx_proj Transfer_apply_error_db
        split: option.splits sum.splits if_splits)

lemma Transfer_apply_locks:
  "locks (snd (Transfer_apply e req sa da s)) = locks s"
  by (auto simp add: Transfer_apply_def Let_def case_prod_beta tx_proj
        split: sum.splits if_splits option.splits)

lemma after_reads_proj:
  "db (after_reads e req s) = db s"
  "\<not> fails e BeginTx \<Longrightarrow> work (after_reads e req s) = db s"
  by (simp_all add: after_reads_def tx_proj)

lemma Transfer_reads:
  assumes "validateTransferRequest req = None"
    and "\<not> fails e BeginTx"
    and "\<not> fails e (SelectForUpdate (SourceAccountID req))"
    and "\<not> fails e (SelectForUpdate (DestinationAccountID req))"
    and "accounts (db s) (SourceAccountID req) = Some sb"
    and "accounts (db s) (DestinationAccountID req) = Some dbal"
  shows "Transfer e req s =
           Transfer_apply e req \<lparr>ID = SourceAccountID req, Balance = sb\<rparr>
             \<lparr>ID = DestinationAccountID req, Balance = dbal\<rparr> (after_reads e req s)"
  using assms
  by (simp add: Transfer_def after_reads_def case_prod_beta tx_proj)


lemma validate_None_distinct:
  "validateTransferRequest req = None \<Longrightarrow> SourceAccountID req \<noteq> DestinationAccountID req"
  by (auto simp: validateTransferRequest_def split: if_splits)

lemma Transfer_apply_success:
  assumes "fst (Transfer_apply e req sa da s) = Inr t"
    and "SourceAccountID req \<noteq> DestinationAccountID req"
  shows "t = \<lparr>tx_ID = new_uuid e, tx_SourceAccountID = SourceAccountID req,
              tx_DestinationAccountID = DestinationAccountID req, tx_Amount = Amount req\<rparr>
         \<and> \<not> Balance sa < Amount req
         \<and> accounts (db (snd (Transfer_apply e req sa da s))) =
             (accounts (work s))(SourceAccountID req \<mapsto> Balance sa - Amount req,
                                 DestinationAccountID req \<mapsto> Balance da + Amount req)
         \<and> transactions (db (snd (Transfer_apply e req sa da s))) = transactions (work s) @ [t]"
  using assms
  by (auto simp add: Transfer_apply_def Let_def case_prod_beta tx_proj
        split: sum.splits if_splits option.splits)

lemma Transfer_apply_runs:
  assumes "\<not> Balance sa < Amount req"
    and "SourceAccountID req \<noteq> DestinationAccountID req"
    and "accounts (work s) (SourceAccountID req) \<noteq> None"
    and "accounts (work s) (DestinationAccountID req) \<noteq> None"
    and "\<not> fails e (UpdateBalance (SourceAccountID req))"
    and "\<not> fails e (UpdateBalance (DestinationAccountID req))"
    and "\<not> fails e InsertTransaction"
    and "\<not> fails e Commit"
  shows "fst (Transfer_apply e req sa da s) =
           Inr \<lparr>tx_ID = new_uuid e, tx_SourceAccountID = SourceAccountID req,
                tx_DestinationAccountID = DestinationAccountID req, tx_Amount = Amount req\<rparr>"
  using assms
  by (auto simp add: Transfer_apply_def Let_def case_prod_beta tx_proj
        split: sum.splits if_splits option.splits)

lemma Transfer_apply_insufficient:
  "(fst (Transfer_apply e req sa da s) = Inl ErrInsufficentBalance) = (Balance sa < Amount req)"
  by (auto simp add: Transfer_apply_def Let_def case_prod_beta tx_proj
        split: sum.splits if_splits option.splits)

section \<open>Account service\<close>

lemma CreateAccount_repo_proj:
  "fst (CreateAccount_repo e a s) =
     (if fails e (InsertAccount (ID a)) then Inl (Errorf ''failed to create account'' ErrDriver)
      else case accounts (db s) (ID a) of
             Some b \<Rightarrow> Inl ErrAccountAlreadyExists
           | None \<Rightarrow> Inr ())"
  "db (snd (CreateAccount_repo e a s)) =
     (if \<not> fails e (InsertAccount (ID a)) \<and> accounts (db s) (ID a) = None
      then (db s)\<lparr>accounts := (accounts (db s))(ID a \<mapsto> Balance a)\<rparr> else db s)"
  by (auto simp: CreateAccount_repo_def Let_def split: option.splits)

lemma createAccoutAuditLog_proj:
  "accounts (db (snd (createAccoutAuditLog e a s))) = accounts (db s)"
  "transactions (db (snd (createAccoutAuditLog e a s))) = transactions (db s)"
  "fails e (InsertAuditWithDB AuditActionCreate) \<Longrightarrow>
     audit_logs (db (snd (createAccoutAuditLog e a s))) = audit_logs (db s)"
  by (simp_all add: createAccoutAuditLog_def CreateWithDB_def Let_def)

lemma CreateAccount_invalid:
  "validateCreateRequest req = Some err \<Longrightarrow> CreateAccount e req s = (Inl err, s)"
  by (simp add: CreateAccount_def)

lemma CreateAccount_exists:
  assumes "validateCreateRequest req = None"
    and "\<not> fails e (InsertAccount (req_ID req))"
    and "accounts (db s) (req_ID req) = Some b"
  shows "fst (CreateAccount e req s) = Inl ErrAccountAlreadyExists"
    and "db (snd (CreateAccount e req s)) = db s"
  using assms
  by (simp_all add: CreateAccount_def Let_def case_prod_beta CreateAccount_repo_proj
        split: sum.splits)

lemma CreateAccount_fresh:
  assumes "validateCreateRequest req = None"
    and "\<not> fails e (InsertAccount (req_ID req))"
    and "accounts (db s) (req_ID req) = None"
  shows "fst (CreateAccount e req s) = Inr \<lparr>ID = req_ID req, Balance = InitialBalance req\<rparr>"
    and "accounts (db (snd (CreateAccount e req s))) =
           (accounts (db s))(req_ID req \<mapsto> InitialBalance req)"
    and "transactions (db (snd (CreateAccount e req s))) = transactions (db s)"
    and "fails e (InsertAuditWithDB AuditActionCreate) \<Longrightarrow>
           audit_logs (db (snd (CreateAccount e req s))) = audit_logs (db s)"
  using assms
  by (simp_all add: CreateAccount_def Let_def case_prod_beta CreateAccount_repo_proj
        createAccoutAuditLog_proj split: sum.splits)

lemma CreateAccount_success_stored:
  assumes "fst (CreateAccount e req s) = Inr a"
  shows "accounts (db (snd (CreateAccount e req s))) (req_ID req) = Some (InitialBalance req)"
  using assms
  by (auto simp add: CreateAccount_def Let_def case_prod_beta CreateAccount_repo_proj
        createAccoutAuditLog_proj split: sum.splits option.splits if_splits)

lemmas example_defs = env_ok_def env_audit_down_def env_commit_down_def empty_store_def
  sys_empty_def sys_two_def req_250_def req_all_def req_10000_def req_back_def req_same_def
  req_blank_def tx_250_def create_x_100_def create_x_7_def

lemmas run_defs = Transfer_def Transfer_apply_def validateTransferRequest_def
  createTransferAuditLog_def db_BeginTx_def tx_Commit_def tx_Rollback_def issue_def
  GetAccountByIDForUpdate_def UpdateAccountBalance_def Create_transaction_def Create_audit_def
  CreateAccount_def validateCreateRequest_def CreateAccount_repo_def createAccoutAuditLog_def
  CreateWithDB_def GetAccount_def GetAccountByID_def AuditActionCreate_def EntityTypeAccount_def
  Let_def

section \<open>The claims\<close>

text \<open>
  C1, as the code has it. The claim asks for the two locked reads in the order of the
  identifiers. \<^verbatim>\<open>Transfer\<close> reads the source row for update and then the destination
  row, whatever the identifiers are: after a transfer whose request is valid, the rows
  locked by the call are none, the source alone, or the source followed by the
  destination; and when the unit of work opens, both reads go through and both rows
  exist, the locks are taken source first, destination second.
\<close>

theorem Transfer_locks_in_request_order:
  assumes "validateTransferRequest req = None"
  shows "(locks (snd (Transfer e req s)) = locks s
          \<or> locks (snd (Transfer e req s)) = locks s @ [SourceAccountID req]
          \<or> locks (snd (Transfer e req s)) =
               locks s @ [SourceAccountID req, DestinationAccountID req])
       \<and> (\<not> fails e BeginTx \<and> \<not> fails e (SelectForUpdate (SourceAccountID req))
            \<and> \<not> fails e (SelectForUpdate (DestinationAccountID req))
            \<and> accounts (db s) (SourceAccountID req) \<noteq> None
            \<and> accounts (db s) (DestinationAccountID req) \<noteq> None
          \<longrightarrow> locks (snd (Transfer e req s)) =
                locks s @ [SourceAccountID req, DestinationAccountID req])"
  using assms
  by (auto simp add: Transfer_def case_prod_beta tx_proj Transfer_apply_locks
        split: option.splits sum.splits if_splits)

theorem Transfer_locks_in_request_order_witness:
  "validateTransferRequest req_back = None
   \<and> locks (snd (Transfer env_ok req_back sys_two)) = [''acc002'', ''acc001'']"
  using Transfer_locks_in_request_order [of req_back env_ok sys_two]
  by (simp add: validateTransferRequest_def example_defs)

text \<open>
  C1, as the claim states it, fails: the transfer from acc002 to acc001 passes
  pre-validation and locks acc002 first and acc001 second, although acc001 is the
  lesser identifier.
\<close>

theorem Transfer_lock_order_counterexample:
  "validateTransferRequest req_back = None
   \<and> locks (snd (Transfer env_ok req_back sys_two)) = [''acc002'', ''acc001'']
   \<and> ''acc001'' < ''acc002''
   \<and> \<not> sorted (locks (snd (Transfer env_ok req_back sys_two)))"
  by (simp add: run_defs example_defs)



text \<open>
  C3. A transfer that returns an error, whichever it is (a rejected request, an account
  that is missing, an insufficient balance, a call to the store that fails, the commit
  included), leaves the committed accounts, transactions and audit entries as they were.
\<close>

theorem Transfer_error_atomic:
  assumes "fst (Transfer e req s) = Inl err"
  shows "accounts (db (snd (Transfer e req s))) = accounts (db s)
       \<and> transactions (db (snd (Transfer e req s))) = transactions (db s)
       \<and> audit_logs (db (snd (Transfer e req s))) = audit_logs (db s)"
  using Transfer_error_db [OF assms] by simp

theorem Transfer_error_atomic_witness:
  "fst (Transfer env_commit_down req_250 sys_two) = Inl (TransactionError ''commit'' ErrDriver)
   \<and> accounts (db (snd (Transfer env_commit_down req_250 sys_two))) = accounts (db sys_two)
   \<and> transactions (db (snd (Transfer env_commit_down req_250 sys_two))) = []"
proof -
  have run: "fst (Transfer env_commit_down req_250 sys_two)
               = Inl (TransactionError ''commit'' ErrDriver)"
    by (simp add: run_defs example_defs)
  show ?thesis
    using run Transfer_error_atomic [OF run] by (simp add: sys_two_def)
qed

text \<open>
  C4. For a valid request on two existing accounts: a transfer that fails with
  \<open>ErrInsufficentBalance\<close> had a source balance below the amount; when the unit of work
  opens and the two locked reads go through, the transfer fails with
  \<open>ErrInsufficentBalance\<close> exactly when the source balance is below the amount; and
  then no balance has changed.
\<close>

theorem Transfer_insufficient_iff:
  assumes "validateTransferRequest req = None"
    and "accounts (db s) (SourceAccountID req) = Some sb"
    and "accounts (db s) (DestinationAccountID req) = Some dbal"
    and "\<not> fails e BeginTx"
    and "\<not> fails e (SelectForUpdate (SourceAccountID req))"
    and "\<not> fails e (SelectForUpdate (DestinationAccountID req))"
  shows "(fst (Transfer e req s) = Inl ErrInsufficentBalance) = (sb < Amount req)
       \<and> (sb < Amount req \<longrightarrow> accounts (db (snd (Transfer e req s))) = accounts (db s))"
proof -
  have iff: "(fst (Transfer e req s) = Inl ErrInsufficentBalance) = (sb < Amount req)"
    by (simp add: Transfer_reads [OF assms(1) assms(4) assms(5) assms(6) assms(2) assms(3)]
          Transfer_apply_insufficient)
  have "accounts (db (snd (Transfer e req s))) = accounts (db s)" if "sb < Amount req"
    using that iff Transfer_error_db [of e req s ErrInsufficentBalance] by simp
  with iff show ?thesis by simp
qed

theorem Transfer_insufficient_iff_witness:
  "fst (Transfer env_ok req_10000 sys_two) = Inl ErrInsufficentBalance
   \<and> accounts (db (snd (Transfer env_ok req_10000 sys_two))) = accounts (db sys_two)
   \<and> fst (Transfer env_ok req_250 sys_two) \<noteq> Inl ErrInsufficentBalance"
  using Transfer_insufficient_iff [of req_10000 sys_two 1000 500 env_ok]
    Transfer_insufficient_iff [of req_250 sys_two 1000 500 env_ok]
  by (simp add: validateTransferRequest_def example_defs)

text \<open>
  C5. A request that fails pre-validation is answered before anything is asked of the
  store: the state, the list of calls issued included, is the one before the call. An
  empty source identifier gives a validation error on \<open>source_account_id\<close>, an empty
  destination identifier one on \<open>destination_account_id\<close>, equal identifiers give
  \<open>ErrSameAccount\<close>, and an amount that is not above zero gives \<open>ErrInvalidAmount\<close>, each
  when no earlier check has answered.
\<close>

theorem Transfer_prevalidation:
  fixes s :: "('a::{linorder,zero,plus,minus}) sys"
  shows "(SourceAccountID req = [] \<longrightarrow>
            Transfer e req s
              = (Inl (ValidationError ''source_account_id'' ''must be non-empty''), s))
       \<and> (SourceAccountID req \<noteq> [] \<and> DestinationAccountID req = [] \<longrightarrow>
            Transfer e req s
              = (Inl (ValidationError ''destination_account_id'' ''must be non-empty''), s))
       \<and> (SourceAccountID req \<noteq> [] \<and> DestinationAccountID req \<noteq> []
            \<and> SourceAccountID req = DestinationAccountID req \<longrightarrow>
            Transfer e req s = (Inl ErrSameAccount, s))
       \<and> (SourceAccountID req \<noteq> [] \<and> DestinationAccountID req \<noteq> []
            \<and> SourceAccountID req \<noteq> DestinationAccountID req \<and> \<not> 0 < Amount req \<longrightarrow>
            Transfer e req s = (Inl ErrInvalidAmount, s))
       \<and> (\<forall>err. validateTransferRequest req = Some err \<longrightarrow>
            fst (Transfer e req s) = Inl err \<and> issued (snd (Transfer e req s)) = issued s
            \<and> db (snd (Transfer e req s)) = db s)
       \<and> (SourceAccountID req = [] \<or> DestinationAccountID req = [] \<longrightarrow>
            (case fst (Transfer e req s) of Inl err \<Rightarrow> IsValidationError err | Inr t \<Rightarrow> False))"
  by (cases "SourceAccountID req = []")
    (auto simp add: Transfer_invalid validateTransferRequest_def not_less)

theorem Transfer_prevalidation_witness:
  "Transfer env_ok req_same sys_two = (Inl ErrSameAccount, sys_two)
   \<and> Transfer env_ok req_blank sys_two
       = (Inl (ValidationError ''source_account_id'' ''must be non-empty''), sys_two)
   \<and> issued (snd (Transfer env_ok req_same sys_two)) = []"
  using Transfer_prevalidation [of req_same env_ok sys_two]
    Transfer_prevalidation [of req_blank env_ok sys_two]
  by (simp add: example_defs)

text \<open>
  C10. \<^verbatim>\<open>validateTransferRequest\<close> answers with one error, the first in a fixed order:
  empty source identifier, then empty destination identifier, then equal identifiers,
  then an amount that is not above zero; and \<^verbatim>\<open>Transfer\<close> returns that error.
\<close>

theorem validateTransferRequest_precedence:
  fixes req :: "('a::{linorder,zero,plus,minus}) CreateTransactionRequest"
  shows "validateTransferRequest req =
           (if SourceAccountID req = []
            then Some (ValidationError ''source_account_id'' ''must be non-empty'')
            else if DestinationAccountID req = []
            then Some (ValidationError ''destination_account_id'' ''must be non-empty'')
            else if SourceAccountID req = DestinationAccountID req then Some ErrSameAccount
            else if \<not> 0 < Amount req then Some ErrInvalidAmount
            else None)
       \<and> (\<forall>err. validateTransferRequest req = Some err \<longrightarrow> fst (Transfer e req s) = Inl err)"
  by (auto simp add: Transfer_invalid validateTransferRequest_def not_less)

theorem validateTransferRequest_precedence_witness:
  "validateTransferRequest req_blank
     = Some (ValidationError ''source_account_id'' ''must be non-empty'')
   \<and> validateTransferRequest req_same = Some ErrSameAccount
   \<and> fst (Transfer env_ok req_same sys_two) = Inl ErrSameAccount
   \<and> fst (Transfer env_ok req_blank sys_two)
       = Inl (ValidationError ''source_account_id'' ''must be non-empty'')"
  using validateTransferRequest_precedence [of req_blank env_ok sys_two]
    validateTransferRequest_precedence [of req_same env_ok sys_two]
  by (simp add: example_defs)

text \<open>
  C9. The balance check is strict. For a valid request on two existing accounts, with
  every call of the transfer other than the audit inserts going through: a source
  balance that is not below the amount is accepted and the transfer returns its
  transaction; when the amount is the whole source balance, the source is left with
  exactly zero; and \<open>ErrInsufficentBalance\<close> is returned only for a source balance below
  the amount.
\<close>

theorem Transfer_whole_balance:
  fixes s :: "('a::linordered_ab_group_add) sys"
  assumes "validateTransferRequest req = None"
    and "accounts (db s) (SourceAccountID req) = Some sb"
    and "accounts (db s) (DestinationAccountID req) = Some dbal"
    and "\<not> fails e BeginTx"
    and "\<not> fails e (SelectForUpdate (SourceAccountID req))"
    and "\<not> fails e (SelectForUpdate (DestinationAccountID req))"
    and "\<not> fails e (UpdateBalance (SourceAccountID req))"
    and "\<not> fails e (UpdateBalance (DestinationAccountID req))"
    and "\<not> fails e InsertTransaction"
    and "\<not> fails e Commit"
  shows "(\<not> sb < Amount req \<longrightarrow>
            fst (Transfer e req s) =
              Inr \<lparr>tx_ID = new_uuid e, tx_SourceAccountID = SourceAccountID req,
                   tx_DestinationAccountID = DestinationAccountID req, tx_Amount = Amount req\<rparr>)
       \<and> (Amount req = sb \<longrightarrow>
            accounts (db (snd (Transfer e req s))) (SourceAccountID req) = Some 0)
       \<and> (fst (Transfer e req s) = Inl ErrInsufficentBalance \<longrightarrow> sb < Amount req)"
proof -
  let ?sa = "\<lparr>ID = SourceAccountID req, Balance = sb\<rparr>"
  let ?da = "\<lparr>ID = DestinationAccountID req, Balance = dbal\<rparr>"
  let ?s2 = "after_reads e req s"
  let ?t = "\<lparr>tx_ID = new_uuid e, tx_SourceAccountID = SourceAccountID req,
             tx_DestinationAccountID = DestinationAccountID req, tx_Amount = Amount req\<rparr>"
  have unfold: "Transfer e req s = Transfer_apply e req ?sa ?da ?s2"
    by (rule Transfer_reads [OF assms(1) assms(4) assms(5) assms(6) assms(2) assms(3)])
  have distinct: "SourceAccountID req \<noteq> DestinationAccountID req"
    by (rule validate_None_distinct [OF assms(1)])
  have work: "work ?s2 = db s"
    by (rule after_reads_proj(2) [OF assms(4)])
  have accepted: "fst (Transfer e req s) = Inr ?t" if "\<not> sb < Amount req"
    unfolding unfold
    by (rule Transfer_apply_runs) (use that distinct work assms in simp_all)
  have zero: "accounts (db (snd (Transfer e req s))) (SourceAccountID req) = Some 0"
    if "Amount req = sb"
  proof -
    have "fst (Transfer_apply e req ?sa ?da ?s2) = Inr ?t"
      using accepted that unfold by simp
    from Transfer_apply_success [OF this distinct] show ?thesis
      using that distinct unfold work by simp
  qed
  have strict: "sb < Amount req" if "fst (Transfer e req s) = Inl ErrInsufficentBalance"
    using that unfold by (simp add: Transfer_apply_insufficient)
  from accepted zero strict show ?thesis by blast
qed

theorem Transfer_whole_balance_witness:
  "fst (Transfer env_ok req_all sys_two)
     = Inr \<lparr>tx_ID = ''0b9e'', tx_SourceAccountID = ''acc001'',
            tx_DestinationAccountID = ''acc002'', tx_Amount = 1000\<rparr>
   \<and> accounts (db (snd (Transfer env_ok req_all sys_two))) ''acc001'' = Some 0"
  using Transfer_whole_balance [of req_all sys_two 1000 500 env_ok]
  by (simp add: validateTransferRequest_def example_defs)



text \<open>
  C7. \<^verbatim>\<open>CreateAccount\<close> answers an empty identifier with \<open>ErrInvalidAccountID\<close> and a
  negative initial balance with \<open>ErrNegativeBalance\<close>, without a call to the store; for a
  valid request whose insert the store does not refuse for another reason, it answers
  \<open>ErrAccountAlreadyExists\<close> when the identifier is taken, leaving the store as it was,
  and otherwise stores the account and returns it. After a first creation of an
  identifier has succeeded, a second valid request for the same identifier gets
  \<open>ErrAccountAlreadyExists\<close> and the stored balance is that of the first request.
\<close>

theorem CreateAccount_outcomes:
  fixes s :: "('a::{linorder,zero}) sys"
  shows "(req_ID req = [] \<longrightarrow> CreateAccount e req s = (Inl ErrInvalidAccountID, s))
       \<and> (req_ID req \<noteq> [] \<and> InitialBalance req < 0 \<longrightarrow>
            CreateAccount e req s = (Inl ErrNegativeBalance, s))
       \<and> (req_ID req \<noteq> [] \<and> \<not> InitialBalance req < 0
          \<and> \<not> fails e (InsertAccount (req_ID req)) \<and> accounts (db s) (req_ID req) \<noteq> None \<longrightarrow>
            fst (CreateAccount e req s) = Inl ErrAccountAlreadyExists
            \<and> db (snd (CreateAccount e req s)) = db s)
       \<and> (req_ID req \<noteq> [] \<and> \<not> InitialBalance req < 0
          \<and> \<not> fails e (InsertAccount (req_ID req)) \<and> accounts (db s) (req_ID req) = None \<longrightarrow>
            fst (CreateAccount e req s) = Inr \<lparr>ID = req_ID req, Balance = InitialBalance req\<rparr>
            \<and> accounts (db (snd (CreateAccount e req s)))
                = (accounts (db s))(req_ID req \<mapsto> InitialBalance req))
       \<and> ((\<exists>a. fst (CreateAccount e req s) = Inr a)
          \<and> req_ID req2 = req_ID req \<and> \<not> InitialBalance req2 < 0
          \<and> \<not> fails e2 (InsertAccount (req_ID req)) \<longrightarrow>
            fst (CreateAccount e2 req2 (snd (CreateAccount e req s))) = Inl ErrAccountAlreadyExists
            \<and> accounts (db (snd (CreateAccount e2 req2 (snd (CreateAccount e req s)))))
                (req_ID req) = Some (InitialBalance req))"
proof (intro conjI impI)
  show "CreateAccount e req s = (Inl ErrInvalidAccountID, s)" if "req_ID req = []"
    using that by (simp add: CreateAccount_invalid validateCreateRequest_def)
  show "CreateAccount e req s = (Inl ErrNegativeBalance, s)"
    if "req_ID req \<noteq> [] \<and> InitialBalance req < 0"
    using that by (simp add: CreateAccount_invalid validateCreateRequest_def)
next
  assume a: "req_ID req \<noteq> [] \<and> \<not> InitialBalance req < 0
          \<and> \<not> fails e (InsertAccount (req_ID req)) \<and> accounts (db s) (req_ID req) \<noteq> None"
  then obtain b where b: "accounts (db s) (req_ID req) = Some b" by auto
  have v: "validateCreateRequest req = None"
    using a by (simp add: validateCreateRequest_def)
  have f: "\<not> fails e (InsertAccount (req_ID req))" using a by simp
  show "fst (CreateAccount e req s) = Inl ErrAccountAlreadyExists"
    by (rule CreateAccount_exists(1) [OF v f b])
  show "db (snd (CreateAccount e req s)) = db s"
    by (rule CreateAccount_exists(2) [OF v f b])
next
  assume a: "req_ID req \<noteq> [] \<and> \<not> InitialBalance req < 0
          \<and> \<not> fails e (InsertAccount (req_ID req)) \<and> accounts (db s) (req_ID req) = None"
  have v: "validateCreateRequest req = None"
    using a by (simp add: validateCreateRequest_def)
  have f: "\<not> fails e (InsertAccount (req_ID req))" and n: "accounts (db s) (req_ID req) = None"
    using a by simp_all
  show "fst (CreateAccount e req s) = Inr \<lparr>ID = req_ID req, Balance = InitialBalance req\<rparr>"
    by (rule CreateAccount_fresh(1) [OF v f n])
  show "accounts (db (snd (CreateAccount e req s)))
          = (accounts (db s))(req_ID req \<mapsto> InitialBalance req)"
    by (rule CreateAccount_fresh(2) [OF v f n])
next
  let ?s1 = "snd (CreateAccount e req s)"
  assume a: "(\<exists>a. fst (CreateAccount e req s) = Inr a)
          \<and> req_ID req2 = req_ID req \<and> \<not> InitialBalance req2 < 0
          \<and> \<not> fails e2 (InsertAccount (req_ID req))"
  then obtain acc where first: "fst (CreateAccount e req s) = Inr acc" by blast
  have stored: "accounts (db ?s1) (req_ID req2) = Some (InitialBalance req)"
    using CreateAccount_success_stored [OF first] a by simp
  have nonempty: "req_ID req \<noteq> []"
    using first by (auto simp: CreateAccount_def validateCreateRequest_def split: if_splits)
  have v2: "validateCreateRequest req2 = None"
    using a nonempty by (simp add: validateCreateRequest_def)
  have f2: "\<not> fails e2 (InsertAccount (req_ID req2))" using a by simp
  show "fst (CreateAccount e2 req2 ?s1) = Inl ErrAccountAlreadyExists"
    by (rule CreateAccount_exists(1) [OF v2 f2 stored])
  show "accounts (db (snd (CreateAccount e2 req2 ?s1))) (req_ID req) = Some (InitialBalance req)"
    using CreateAccount_exists(2) [OF v2 f2 stored] stored a by simp
qed

theorem CreateAccount_outcomes_witness:
  "fst (CreateAccount env_ok create_x_100 sys_empty) = Inr \<lparr>ID = ''X'', Balance = 100\<rparr>
   \<and> fst (CreateAccount env_ok create_x_7 (snd (CreateAccount env_ok create_x_100 sys_empty)))
       = Inl ErrAccountAlreadyExists
   \<and> accounts (db (snd (CreateAccount env_ok create_x_7
                          (snd (CreateAccount env_ok create_x_100 sys_empty))))) ''X''
       = Some 100"
  using CreateAccount_outcomes [of create_x_100 env_ok sys_empty create_x_7 env_ok]
  by (simp add: example_defs)

text \<open>
  C8. \<^verbatim>\<open>GetAccount\<close> answers the empty identifier with \<open>ErrInvalidAccountID\<close> without a
  call to the store; for another identifier whose read the store answers, it returns
  \<open>ErrAccountNotFound\<close> when no account has the identifier and otherwise the account
  with that identifier and its stored balance. It never changes the store.
\<close>

theorem GetAccount_outcomes:
  "(i = [] \<longrightarrow> GetAccount e i s = (Inl ErrInvalidAccountID, s))
   \<and> (i \<noteq> [] \<and> \<not> fails e (SelectAccount i) \<and> accounts (db s) i = None \<longrightarrow>
        fst (GetAccount e i s) = Inl ErrAccountNotFound)
   \<and> (\<forall>b. i \<noteq> [] \<and> \<not> fails e (SelectAccount i) \<and> accounts (db s) i = Some b \<longrightarrow>
        fst (GetAccount e i s) = Inr \<lparr>ID = i, Balance = b\<rparr>)
   \<and> db (snd (GetAccount e i s)) = db s"
  by (auto simp add: GetAccount_def GetAccountByID_def Let_def split: option.splits)

theorem GetAccount_outcomes_witness:
  "fst (GetAccount env_ok ''acc001'' sys_two) = Inr \<lparr>ID = ''acc001'', Balance = 1000\<rparr>
   \<and> fst (GetAccount env_ok ''acc003'' sys_two) = Inl ErrAccountNotFound
   \<and> fst (GetAccount env_ok [] sys_two) = Inl ErrInvalidAccountID"
  using GetAccount_outcomes [of "''acc001''" env_ok sys_two]
    GetAccount_outcomes [of "''acc003''" env_ok sys_two]
    GetAccount_outcomes [of "[]" env_ok sys_two]
  by (simp add: example_defs)


end
